theory Spec2Isabelle
  imports Complex_Main "HOL-Library.Word"
begin

section \<open>JavaScript strings\<close>

text \<open>
  A JavaScript string is a sequence of 16-bit code units. Literals of the source that are
  plain ASCII are written with \<open>utf16\<close>; the few emoji of the source are written as their
  code units.
\<close>

type_synonym jschar = "16 word"
type_synonym jsstring = "jschar list"

definition utf16 :: "string \<Rightarrow> jsstring" where
  "utf16 s = map of_char s"

text \<open>\<open>Number.prototype.toString\<close> on a non-negative integer (an HTTP status, a clock reading).\<close>

fun decimal :: "nat \<Rightarrow> jsstring" where
  "decimal n = (if n < 10 then [0x30 + of_nat n] else decimal (n div 10) @ [0x30 + of_nat (n mod 10)])"

text \<open>\<open>String.prototype.includes\<close>: the needle occurs as a contiguous run of code units.\<close>

fun starts_with :: "jsstring \<Rightarrow> jsstring \<Rightarrow> bool" where
  "starts_with [] cs = True"
| "starts_with (p # ps) [] = False"
| "starts_with (p # ps) (c # cs) = (p = c \<and> starts_with ps cs)"

fun js_includes :: "jsstring \<Rightarrow> jsstring \<Rightarrow> bool" where
  "js_includes needle [] = starts_with needle []"
| "js_includes needle (c # cs) = (starts_with needle (c # cs) \<or> js_includes needle cs)"

text \<open>
  \<open>String.prototype.trim\<close> removes leading and trailing WhiteSpace and LineTerminator code
  points; all of them lie in the Basic Multilingual Plane, so each is one code unit.
\<close>

definition is_white_space :: "jschar \<Rightarrow> bool" where
  "is_white_space c \<longleftrightarrow>
     c \<in> set [0x0009, 0x000A, 0x000B, 0x000C, 0x000D, 0x0020, 0x00A0, 0x1680,
              0x2000, 0x2001, 0x2002, 0x2003, 0x2004, 0x2005, 0x2006, 0x2007,
              0x2008, 0x2009, 0x200A, 0x2028, 0x2029, 0x202F, 0x205F, 0x3000, 0xFEFF]"

definition trim :: "jsstring \<Rightarrow> jsstring" where
  "trim s = rev (dropWhile is_white_space (rev (dropWhile is_white_space s)))"

section \<open>The JavaScript environment\<close>

text \<open>
  What the program takes from the engine and the browser and what the repository does not
  define: the upper-casing of a single code unit outside ASCII (consulted by case-insensitive
  regular expressions), \<open>String.prototype.toLowerCase\<close>, the wording of the TypeError raised by a property read on
  \<open>undefined\<close> or \<open>null\<close> (it differs between engines), whether \<open>window\<close> has
  \<open>speechSynthesis\<close>, and \<open>JSON.stringify\<close> / \<open>JSON.parse\<close> at the type of the voice
  settings. All of them are parameters: every theorem below holds for each choice.
\<close>

record VoiceSettings =
  selectedVoice :: int
  pitch :: rat
  rate :: rat

datatype js_error =
    Error jsstring
  | TypeError jsstring
  | SyntaxError jsstring
  | DOMException jsstring jsstring

fun message :: "js_error \<Rightarrow> jsstring" where
  "message (Error m) = m"
| "message (TypeError m) = m"
| "message (SyntaxError m) = m"
| "message (DOMException n m) = m"

text \<open>\<open>e instanceof Error\<close>: every exception class above inherits from \<open>Error\<close>.\<close>

fun instanceof_Error :: "js_error \<Rightarrow> bool" where
  "instanceof_Error (Error m) = True"
| "instanceof_Error (TypeError m) = True"
| "instanceof_Error (SyntaxError m) = True"
| "instanceof_Error (DOMException n m) = True"

fun instanceof_TypeError :: "js_error \<Rightarrow> bool" where
  "instanceof_TypeError (TypeError m) = True"
| "instanceof_TypeError e = False"

record js_env =
  toUpperCase_unit :: "jschar \<Rightarrow> jsstring"
  read_undefined_message :: "jsstring \<Rightarrow> jsstring"
  read_null_message :: "jsstring \<Rightarrow> jsstring"
  speechSynthesis_in_window :: bool
  toLowerCase :: "jsstring \<Rightarrow> jsstring"
  JSON_stringify_settings :: "VoiceSettings \<Rightarrow> jsstring"
  JSON_parse_settings :: "jsstring \<Rightarrow> js_error + VoiceSettings"

section \<open>Mood detection (ChatInterface.tsx, detectMood)\<close>

text \<open>
  The three regular expressions of \<open>detectMood\<close> are disjunctions of literal alternatives
  with the flag \<open>i\<close> and without the flags \<open>u\<close>, \<open>g\<close> and \<open>y\<close>. \<open>test\<close> succeeds when
  some alternative matches at some start index; two code units match when their
  canonical forms are equal. \<open>Canonicalize\<close> is the operation of the language standard for a
  case-insensitive, non-Unicode pattern: upper-case the unit; keep the unit itself when the
  result is not a single unit, or when it would turn a non-ASCII unit into an ASCII one.
\<close>

definition ascii_upper :: "jschar \<Rightarrow> jschar" where
  "ascii_upper c = (if 0x61 \<le> c \<and> c \<le> 0x7A then c - 0x20 else c)"

definition Canonicalize :: "js_env \<Rightarrow> jschar \<Rightarrow> jschar" where
  "Canonicalize env ch =
     (if ch < 128 then ascii_upper ch
      else (case toUpperCase_unit env ch of
              [cu] \<Rightarrow> if cu < 128 then ch else cu
            | _ \<Rightarrow> ch))"

fun match_alternative :: "js_env \<Rightarrow> jsstring \<Rightarrow> jsstring \<Rightarrow> bool" where
  "match_alternative env [] cs = True"
| "match_alternative env (p # ps) [] = False"
| "match_alternative env (p # ps) (c # cs) =
     (Canonicalize env p = Canonicalize env c \<and> match_alternative env ps cs)"

fun regex_test :: "js_env \<Rightarrow> jsstring list \<Rightarrow> jsstring \<Rightarrow> bool" where
  "regex_test env alternatives [] = list_ex (\<lambda>a. match_alternative env a []) alternatives"
| "regex_test env alternatives (c # cs) =
     (list_ex (\<lambda>a. match_alternative env a (c # cs)) alternatives \<or> regex_test env alternatives cs)"

datatype mood = Tired | Confused | Happy | Neutral

definition tired_pattern :: "jsstring list" where
  "tired_pattern = map utf16 [''tired'', ''exhausted'', ''sleepy'', ''bored'', ''overwhelmed'']"

definition confused_pattern :: "jsstring list" where
  "confused_pattern =
     map utf16 [''confused'', ''don't understand'', ''help'', ''stuck'', ''hard'', ''difficult'']"

definition happy_pattern :: "jsstring list" where
  "happy_pattern = map utf16 [''great'', ''awesome'', ''got it'', ''understand'', ''thanks'', ''good'']"

definition detectMood :: "js_env \<Rightarrow> jsstring \<Rightarrow> mood" where
  "detectMood env text =
     (let tired = regex_test env tired_pattern text;
          confused = regex_test env confused_pattern text;
          happy = regex_test env happy_pattern text
      in if tired then Tired
         else if confused then Confused
         else if happy then Happy
         else Neutral)"

text \<open>
  The reading of the specification's words "case-insensitive keyword matching": a keyword is
  mentioned when it occurs as a contiguous run in the text with the letters A to Z lowered.
\<close>

definition ascii_lower :: "jschar \<Rightarrow> jschar" where
  "ascii_lower c = (if 0x41 \<le> c \<and> c \<le> 0x5A then c + 0x20 else c)"

definition mentions :: "jsstring \<Rightarrow> jsstring \<Rightarrow> bool" where
  "mentions keyword text \<longleftrightarrow> (\<exists>before after. map ascii_lower text = before @ keyword @ after)"

definition mentions_any :: "string list \<Rightarrow> jsstring \<Rightarrow> bool" where
  "mentions_any keywords text \<longleftrightarrow> (\<exists>k. k \<in> set keywords \<and> mentions (utf16 k) text)"

section \<open>HTTP and JSON as the API client sees them\<close>

text \<open>
  A parsed JSON value, as far as this program looks at one: \<open>null\<close>, an object, or anything
  else (a number, a boolean, a string, an array). The program only reads the properties
  \<open>error\<close>, \<open>response\<close> and \<open>status\<close>; on an object they are taken at the type the
  interfaces \<open>BackendChatResponse\<close> and \<open>BackendHealthResponse\<close> declare, a string. A
  property that is absent, or that holds a falsy value, is an absent key or the empty
  string. On a value that is neither \<open>null\<close> nor an object, reading any of these
  properties gives \<open>undefined\<close>; on \<open>null\<close> the read raises a TypeError.
\<close>

datatype json = JNull | JObject "jsstring \<rightharpoonup> jsstring" | JOther

definition get_prop :: "js_env \<Rightarrow> json \<Rightarrow> jsstring \<Rightarrow> js_error + jsstring option" where
  "get_prop env v key =
     (case v of
        JNull \<Rightarrow> Inl (TypeError (read_null_message env key))
      | JObject props \<Rightarrow> Inr (props key)
      | JOther \<Rightarrow> Inr None)"

datatype http_method = GET | POST

text \<open>
  The body of a request is kept as the JSON value that \<open>JSON.stringify\<close> serialises, not
  as its text.
\<close>

record http_request =
  req_method :: http_method
  req_url :: jsstring
  req_headers :: "(jsstring \<times> jsstring) list"
  req_body :: "json option"

text \<open>\<open>resp_json\<close> is the outcome of \<open>response.json()\<close>: the parsed body, or the rejection.\<close>

record http_response =
  resp_status :: nat
  resp_statusText :: jsstring
  resp_json :: "js_error + json"

text \<open>\<open>response.ok\<close> (Fetch standard): the status is in the range 200 to 299.\<close>

definition ok :: "http_response \<Rightarrow> bool" where
  "ok response \<longleftrightarrow> 200 \<le> resp_status response \<and> resp_status response \<le> 299"

datatype fetch_result = Rejected js_error | Resolved http_response

type_synonym network = "http_request \<Rightarrow> fetch_result"

section \<open>The API client (omnidimensionApi.ts)\<close>

datatype role = System | User | Assistant

record ChatMessage =
  role :: role
  content :: jsstring

record OmnidimensionAPI =
  backendUrl :: jsstring

record Location =
  hostname :: jsstring
  protocol :: jsstring

text \<open>
  The constructor. \<open>window\<close> is \<open>None\<close> outside a browser; \<open>VITE_BACKEND_URL\<close> is
  \<open>None\<close> when \<open>import.meta.env\<close> has no such entry. \<open>a || b\<close> takes \<open>b\<close> when \<open>a\<close> is
  \<open>undefined\<close> or the empty string.
\<close>

definition or_else :: "jsstring option \<Rightarrow> jsstring \<Rightarrow> jsstring" where
  "or_else a b = (case a of None \<Rightarrow> b | Some s \<Rightarrow> if s = [] then b else s)"

definition constructor :: "Location option \<Rightarrow> jsstring option \<Rightarrow> OmnidimensionAPI" where
  "constructor window VITE_BACKEND_URL =
     (case window of
        Some location \<Rightarrow>
          if hostname location = utf16 ''localhost'' \<or> hostname location = utf16 ''127.0.0.1''
          then \<lparr>backendUrl = utf16 ''http://localhost:3001''\<rparr>
          else \<lparr>backendUrl = or_else VITE_BACKEND_URL
                  (protocol location @ utf16 ''//captain-focus-backend.onrender.com'')\<rparr>
      | None \<Rightarrow> \<lparr>backendUrl = or_else VITE_BACKEND_URL (utf16 ''http://localhost:3001'')\<rparr>)"

definition getSystemPrompt :: jsstring where
  "getSystemPrompt = utf16
     ''You are Captain Focus, a friendly AI study companion. Help students learn with enthusiasm and encouragement!''"

definition chat_request :: "OmnidimensionAPI \<Rightarrow> jsstring \<Rightarrow> http_request" where
  "chat_request api text =
     \<lparr>req_method = POST,
      req_url = backendUrl api @ utf16 ''/api/chat'',
      req_headers = [(utf16 ''Content-Type'', utf16 ''application/json'')],
      req_body = Some (JObject [utf16 ''message'' \<mapsto> text])\<rparr>"

text \<open>
  Lines 70 and 71: the body of a failed reply, \<open>{}\<close> when it does not parse, and the
  detail \<open>errorData.error || `HTTP ${response.status}: ${response.statusText}`\<close>.
\<close>

definition errorMessage :: "js_env \<Rightarrow> http_response \<Rightarrow> js_error + jsstring" where
  "errorMessage env response =
     (let errorData = (case resp_json response of Inl e \<Rightarrow> JObject Map.empty | Inr d \<Rightarrow> d)
      in case get_prop env errorData (utf16 ''error'') of
           Inl e \<Rightarrow> Inl e
         | Inr detail \<Rightarrow>
             Inr (or_else detail
                   (utf16 ''HTTP '' @ decimal (resp_status response) @ utf16 '': ''
                      @ resp_statusText response)))"

text \<open>
  The body of the \<open>try\<close> block of \<open>sendMessage\<close>: its outcome and the requests it issued.
  \<open>messages[messages.length - 1]\<close> is \<open>undefined\<close> for the empty list, and reading
  \<open>role\<close> of it raises a TypeError.
\<close>

definition sendMessage_try ::
    "js_env \<Rightarrow> network \<Rightarrow> OmnidimensionAPI \<Rightarrow> ChatMessage list
      \<Rightarrow> (js_error + jsstring) \<times> http_request list" where
  "sendMessage_try env fetch api messages =
     (if messages = [] then (Inl (TypeError (read_undefined_message env (utf16 ''role''))), [])
      else
        let latestMessage = last messages in
        if role latestMessage \<noteq> User
        then (Inl (Error (utf16 ''Latest message must be from user'')), [])
        else
          let request = chat_request api (content latestMessage) in
          (case fetch request of
             Rejected e \<Rightarrow> Inl e
           | Resolved response \<Rightarrow>
               if \<not> ok response then
                 (case errorMessage env response of
                    Inl e \<Rightarrow> Inl e
                  | Inr detail \<Rightarrow>
                      if resp_status response = 404
                      then Inl (Error (utf16
                        ''Backend service not found. Please check if the server is running.''))
                      else if resp_status response = 500
                      then Inl (Error (utf16 ''Server error: '' @ detail))
                      else Inl (Error (utf16 ''Backend request failed: '' @ detail)))
               else
                 (case resp_json response of
                    Inl e \<Rightarrow> Inl e
                  | Inr data \<Rightarrow>
                      (case get_prop env data (utf16 ''response'') of
                         Inl e \<Rightarrow> Inl e
                       | Inr None \<Rightarrow> Inl (Error (utf16
                           ''Invalid response from backend: missing response text''))
                       | Inr (Some text) \<Rightarrow>
                           if text = []
                           then Inl (Error (utf16
                             ''Invalid response from backend: missing response text''))
                           else Inr text)),
           [request]))"

text \<open>The \<open>catch\<close> block of \<open>sendMessage\<close>: what it throws for the error it caught.\<close>

definition sendMessage_catch :: "js_error \<Rightarrow> js_error" where
  "sendMessage_catch error =
     (if instanceof_TypeError error \<and> js_includes (utf16 ''fetch'') (message error)
      then Error (utf16
        ''Cannot connect to backend server. Please ensure the backend service is running.'')
      else error)"

definition sendMessage ::
    "js_env \<Rightarrow> network \<Rightarrow> OmnidimensionAPI \<Rightarrow> ChatMessage list
      \<Rightarrow> (js_error + jsstring) \<times> http_request list" where
  "sendMessage env fetch api messages =
     (case sendMessage_try env fetch api messages of
        (Inl error, issued) \<Rightarrow> (Inl (sendMessage_catch error), issued)
      | (Inr text, issued) \<Rightarrow> (Inr text, issued))"

definition health_request :: "OmnidimensionAPI \<Rightarrow> http_request" where
  "health_request api =
     \<lparr>req_method = GET,
      req_url = backendUrl api @ utf16 ''/api/health'',
      req_headers = [(utf16 ''Content-Type'', utf16 ''application/json'')],
      req_body = None\<rparr>"

text \<open>
  \<open>checkHealth\<close>. The \<open>try\<close> block reads \<open>healthData.status\<close> for its log line, which
  raises on \<open>null\<close>; the \<open>catch\<close> block returns \<open>null\<close> for whatever was thrown.
\<close>

definition checkHealth_try :: "js_env \<Rightarrow> network \<Rightarrow> OmnidimensionAPI \<Rightarrow> js_error + json" where
  "checkHealth_try env fetch api =
     (case fetch (health_request api) of
        Rejected e \<Rightarrow> Inl e
      | Resolved response \<Rightarrow>
          if \<not> ok response then Inr JNull
          else
            (case resp_json response of
               Inl e \<Rightarrow> Inl e
             | Inr healthData \<Rightarrow>
                 (case get_prop env healthData (utf16 ''status'') of
                    Inl e \<Rightarrow> Inl e
                  | Inr logged \<Rightarrow> Inr healthData)))"

definition checkHealth ::
    "js_env \<Rightarrow> network \<Rightarrow> OmnidimensionAPI \<Rightarrow> (js_error + json) \<times> http_request list" where
  "checkHealth env fetch api =
     ((case checkHealth_try env fetch api of
         Inl error \<Rightarrow> Inr JNull
       | Inr health \<Rightarrow> Inr health),
      [health_request api])"

section \<open>The chat component (ChatInterface.tsx)\<close>

datatype sender = FromUser | FromCaptain

text \<open>
  A message of the list. \<open>msg_id\<close> is the \<open>id\<close> of the source, \<open>msg_mood\<close> is
  \<open>None\<close> where the source leaves \<open>mood\<close> out, and \<open>msg_timestamp\<close> is the reading of the
  clock that \<open>new Date()\<close> took, in milliseconds.
\<close>

record Message =
  msg_id :: jsstring
  msg_text :: jsstring
  msg_sender :: sender
  msg_mood :: "mood option"
  msg_timestamp :: nat

record Voice =
  voice_name :: jsstring
  voice_lang :: jsstring

record Utterance =
  utt_text :: jsstring
  utt_voice :: "Voice option"
  utt_rate :: rat
  utt_pitch :: rat
  utt_volume :: rat

text \<open>
  The state of the component that the functions below read or write, followed by the parts
  of the browser they act on: \<open>localStorage\<close>, the queue of \<open>speechSynthesis\<close>, and the
  HTTP requests issued so far.
\<close>

record chat_state =
  messages :: "Message list"
  inputText :: jsstring
  isTyping :: bool
  isSpeaking :: bool
  apiError :: "jsstring option"
  voiceSettings :: VoiceSettings
  availableVoices :: "Voice list"
  localStorage :: "jsstring \<rightharpoonup> jsstring"
  speechQueue :: "Utterance list"
  requests :: "http_request list"

text \<open>
  The four readings of the clock one send takes: \<open>Date.now()\<close> and \<open>new Date()\<close> for the
  user's message, and the same two for the captain's.
\<close>

record clock =
  now_user :: nat
  date_user :: nat
  now_captain :: nat
  date_captain :: nat

text \<open>
  \<open>speakText\<close>. The character class of its \<open>replace\<close> has no flag \<open>u\<close>, so it is a set
  of code units: the three plain symbols, the variation selector, and both halves of every
  surrogate pair written in it.
\<close>

definition emoji_class :: "jschar list" where
  "emoji_class =
     [0xD83C, 0xDFAE, 0xD83E, 0xDD14, 0xDF19, 0x26A1, 0xDFAF, 0xDDE0, 0xD83D, 0xDCA1, 0xDDDD,
      0xFE0F, 0xDCDA, 0x2694, 0xDE80, 0x2728, 0xDF89, 0xDFC6, 0xDDE9, 0xDC99, 0xDF1F, 0xDE0C]"

text \<open>\<open>availableVoices[i]\<close>: \<open>undefined\<close> outside the list.\<close>

definition voice_at :: "Voice list \<Rightarrow> int \<Rightarrow> Voice option" where
  "voice_at voices i = (if 0 \<le> i \<and> i < int (length voices) then Some (voices ! nat i) else None)"

definition speakText :: "js_env \<Rightarrow> jsstring \<Rightarrow> chat_state \<Rightarrow> chat_state" where
  "speakText env text st =
     (if speechSynthesis_in_window env then
        let utterance =
              \<lparr>utt_text = filter (\<lambda>c. c \<notin> set emoji_class) text,
               utt_voice = voice_at (availableVoices st) (selectedVoice (voiceSettings st)),
               utt_rate = rate (voiceSettings st),
               utt_pitch = pitch (voiceSettings st),
               utt_volume = 8 / 10\<rparr>
        in st\<lparr>isSpeaking := True, speechQueue := [utterance]\<rparr>
      else st)"

definition conversationHistory :: "Message list \<Rightarrow> ChatMessage list" where
  "conversationHistory msgs =
     map (\<lambda>msg. \<lparr>role = (if msg_sender msg = FromUser then User else Assistant),
                 content = msg_text msg\<rparr>) msgs"

definition apiMessages :: "Message list \<Rightarrow> jsstring \<Rightarrow> ChatMessage list" where
  "apiMessages msgs currentInput =
     [\<lparr>role = System, content = getSystemPrompt\<rparr>]
       @ conversationHistory msgs
       @ [\<lparr>role = User, content = currentInput\<rparr>]"

definition fallbackResponse :: jsstring where
  "fallbackResponse =
     [0xD83E, 0xDD16]
     @ utf16 ('' I'm having trouble connecting to my AI brain right now, but I'm still here to help! ''
         @ ''This might be due to API configuration issues. Please check the backend logs and ''
         @ ''ensure your Omnidimension API key is properly set. '')
     @ [0x26A1]"

definition userMessage :: "clock \<Rightarrow> jsstring \<Rightarrow> Message" where
  "userMessage clk text =
     \<lparr>msg_id = decimal (now_user clk), msg_text = text, msg_sender = FromUser,
      msg_mood = None, msg_timestamp = date_user clk\<rparr>"

definition captainMessage :: "clock \<Rightarrow> jsstring \<Rightarrow> mood \<Rightarrow> Message" where
  "captainMessage clk text m =
     \<lparr>msg_id = decimal (now_captain clk + 1), msg_text = text, msg_sender = FromCaptain,
      msg_mood = Some m, msg_timestamp = date_captain clk\<rparr>"

text \<open>
  \<open>handleSendMessage\<close>, from the click to the settled promise. \<open>Inl\<close> would be a rejected
  promise. The history sent to the client is built from the message list as it was when
  the handler started; the two appends act on the list as it is when they run. One send is
  followed from start to end: no other event of the component is taken in between.
\<close>

definition handleSendMessage ::
    "js_env \<Rightarrow> network \<Rightarrow> OmnidimensionAPI \<Rightarrow> clock \<Rightarrow> chat_state \<Rightarrow> js_error + chat_state" where
  "handleSendMessage env fetch api clk st =
     (if trim (inputText st) = [] then Inr st
      else
        let currentInput = inputText st;
            st1 = st\<lparr>messages := messages st @ [userMessage clk (inputText st)],
                     inputText := [], isTyping := True, apiError := None\<rparr>;
            (outcome, issued) = sendMessage env fetch api (apiMessages (messages st) currentInput);
            st2 = st1\<lparr>requests := requests st1 @ issued\<rparr>
        in case outcome of
             Inr responseText \<Rightarrow>
               let m = detectMood env currentInput;
                   st3 = st2\<lparr>messages := messages st2 @ [captainMessage clk responseText m],
                             isTyping := False\<rparr>
               in Inr (speakText env responseText st3)
           | Inl error \<Rightarrow>
               let st3 = st2\<lparr>apiError := Some (if instanceof_Error error then message error
                                               else utf16 ''Failed to get response from AI'')\<rparr>;
                   st4 = st3\<lparr>messages := messages st3 @ [captainMessage clk fallbackResponse Neutral],
                             isTyping := False\<rparr>
               in Inr (speakText env fallbackResponse st4))"

subsection \<open>Voice settings\<close>

definition STORAGE_KEY :: jsstring where
  "STORAGE_KEY = utf16 ''captainFocusVoiceSettings''"

definition defaultVoiceSettings :: VoiceSettings where
  "defaultVoiceSettings = \<lparr>selectedVoice = 0, pitch = 11 / 10, rate = 9 / 10\<rparr>"

text \<open>
  The initialiser of the \<open>voiceSettings\<close> state (lines 42 to 49): \<open>getItem\<close> gives
  \<open>null\<close> for a missing key, and the empty string is falsy as well. \<open>JSON.parse\<close> is
  taken at the type \<open>VoiceSettings\<close> the state is declared with; it may throw.
\<close>

definition initialVoiceSettings :: "js_env \<Rightarrow> (jsstring \<rightharpoonup> jsstring) \<Rightarrow> js_error + VoiceSettings" where
  "initialVoiceSettings env storage =
     (case storage STORAGE_KEY of
        None \<Rightarrow> Inr defaultVoiceSettings
      | Some saved \<Rightarrow> if saved = [] then Inr defaultVoiceSettings else JSON_parse_settings env saved)"

definition greeting :: jsstring where
  "greeting =
     [0xD83C, 0xDFAE]
     @ utf16 ('' Greetings, brave scholar! I'm Captain Focus, your AI study companion! ''
         @ ''I'm here to turn your learning journey into an epic quest. ''
         @ ''What subject shall we conquer today? '')
     @ [0x2694, 0xFE0F, 0x2728]"

definition initialState :: "js_env \<Rightarrow> (jsstring \<rightharpoonup> jsstring) \<Rightarrow> nat \<Rightarrow> js_error + chat_state" where
  "initialState env storage now =
     (case initialVoiceSettings env storage of
        Inl e \<Rightarrow> Inl e
      | Inr settings \<Rightarrow>
          Inr \<lparr>messages = [\<lparr>msg_id = utf16 ''1'', msg_text = greeting, msg_sender = FromCaptain,
                            msg_mood = Some Happy, msg_timestamp = now\<rparr>],
               inputText = [], isTyping = False, isSpeaking = False, apiError = None,
               voiceSettings = settings, availableVoices = [],
               localStorage = storage, speechQueue = [], requests = []\<rparr>)"

text \<open>
  The effect of lines 94 to 96 runs after the first render and after every render in which
  \<open>voiceSettings\<close> is a new object; each call of \<open>setVoiceSettings\<close> in the component
  stores a new object.
\<close>

definition persistVoiceSettings :: "js_env \<Rightarrow> chat_state \<Rightarrow> chat_state" where
  "persistVoiceSettings env st =
     st\<lparr>localStorage := (localStorage st)(STORAGE_KEY \<mapsto> JSON_stringify_settings env (voiceSettings st))\<rparr>"


definition startup :: "js_env \<Rightarrow> (jsstring \<rightharpoonup> jsstring) \<Rightarrow> nat \<Rightarrow> js_error + chat_state" where
  "startup env storage now =
     (case initialState env storage now of
        Inl e \<Rightarrow> Inl e
      | Inr st \<Rightarrow> Inr (persistVoiceSettings env st))"





section \<open>The backend chat service\<close>

text \<open>
  Modelled from the spec: the Backend Chat Service. The server's code is missing from the
  sources; only its caller, the API client, is among them. The specification says
  that the service is stateless and that it "currently emits a fixed templated string per
  request": a fixed template, whose holes are filled from the request, and a service state
  that handling a request neither reads nor changes.
\<close>

datatype template_part = Fixed jsstring | FromRequest

definition render :: "template_part list \<Rightarrow> jsstring \<Rightarrow> jsstring" where
  "render template request =
     concat (map (\<lambda>part. case part of Fixed s \<Rightarrow> s | FromRequest \<Rightarrow> request) template)"

definition backend_chat :: "template_part list \<Rightarrow> 's \<Rightarrow> jsstring \<Rightarrow> 's \<times> jsstring" where
  "backend_chat template service request = (service, render template request)"

fun serve :: "template_part list \<Rightarrow> 's \<Rightarrow> jsstring list \<Rightarrow> 's \<times> jsstring list" where
  "serve template service [] = (service, [])"
| "serve template service (request # later) =
     (let (service1, reply) = backend_chat template service request;
          (service2, replies) = serve template service1 later
      in (service2, reply # replies))"

section \<open>Notions used by the statements\<close>

text \<open>
  The backend URL as the specification words it: the environment variable "if set", whatever
  its value.
\<close>

definition backendUrl_as_specified :: "Location option \<Rightarrow> jsstring option \<Rightarrow> jsstring" where
  "backendUrl_as_specified window VITE_BACKEND_URL =
     (case window of
        Some location \<Rightarrow>
          if hostname location = utf16 ''localhost'' \<or> hostname location = utf16 ''127.0.0.1''
          then utf16 ''http://localhost:3001''
          else (case VITE_BACKEND_URL of
                  Some url \<Rightarrow> url
                | None \<Rightarrow> protocol location @ utf16 ''//captain-focus-backend.onrender.com'')
      | None \<Rightarrow>
          (case VITE_BACKEND_URL of
             Some url \<Rightarrow> url
           | None \<Rightarrow> utf16 ''http://localhost:3001''))"

text \<open>A successful reply: the status is ok and the body is an object with a non-empty \<open>response\<close>.\<close>

definition successful_reply :: "http_response \<Rightarrow> jsstring \<Rightarrow> bool" where
  "successful_reply response reply \<longleftrightarrow>
     ok response
     \<and> (\<exists>props. resp_json response = Inr (JObject props) \<and> props (utf16 ''response'') = Some reply)
     \<and> reply \<noteq> []"

text \<open>
  A parsed body that lacks a truthy \<open>response\<close> field: \<open>null\<close>, a value that is not an
  object, or an object whose \<open>response\<close> is absent or falsy.
\<close>

definition lacks_response :: "json \<Rightarrow> bool" where
  "lacks_response data \<longleftrightarrow>
     (case data of
        JNull \<Rightarrow> True
      | JObject props \<Rightarrow> props (utf16 ''response'') = None \<or> props (utf16 ''response'') = Some []
      | JOther \<Rightarrow> True)"


text \<open>A keyword of the patterns: ASCII, and without capital letters.\<close>

definition plain :: "jsstring \<Rightarrow> bool" where
  "plain keyword \<longleftrightarrow> list_all (\<lambda>p. p < 128 \<and> ascii_lower p = p) keyword"

section \<open>Example inputs\<close>

text \<open>An engine that words its TypeErrors as V8 does, in a window with speech synthesis.\<close>

definition example_env :: js_env where
  "example_env =
     \<lparr>toUpperCase_unit = (\<lambda>c. [c]),
      read_undefined_message =
        (\<lambda>key. utf16 ''Cannot read properties of undefined (reading '' @ [0x27] @ key @ [0x27] @ utf16 '')''),
      read_null_message =
        (\<lambda>key. utf16 ''Cannot read properties of null (reading '' @ [0x27] @ key @ [0x27] @ utf16 '')''),
      speechSynthesis_in_window = True,
      toLowerCase = map ascii_lower,
      JSON_stringify_settings = (\<lambda>settings. utf16 ''voice '' @ decimal (nat (selectedVoice settings))),
      JSON_parse_settings = (\<lambda>saved. Inr \<lparr>selectedVoice = 2, pitch = 1, rate = 1\<rparr>)\<rparr>"

definition example_api :: OmnidimensionAPI where
  "example_api = \<lparr>backendUrl = utf16 ''http://localhost:3001''\<rparr>"

definition example_clock :: clock where
  "example_clock = \<lparr>now_user = 1000, date_user = 1000, now_captain = 1250, date_captain = 1250\<rparr>"

definition example_state :: chat_state where
  "example_state =
     \<lparr>messages = [], inputText = utf16 ''so tired'', isTyping = False, isSpeaking = False,
      apiError = None, voiceSettings = defaultVoiceSettings, availableVoices = [],
      localStorage = Map.empty, speechQueue = [], requests = []\<rparr>"

definition example_question :: "ChatMessage list" where
  "example_question = [\<lparr>role = Assistant, content = utf16 ''ahoy''\<rparr>, \<lparr>role = User, content = utf16 ''so tired''\<rparr>]"

definition reply_with :: "nat \<Rightarrow> js_error + json \<Rightarrow> network" where
  "reply_with code parsed = (\<lambda>request. Resolved \<lparr>resp_status = code, resp_statusText = utf16 ''x'', resp_json = parsed\<rparr>)"

definition good_reply :: network where
  "good_reply = reply_with 200 (Inr (JObject [utf16 ''response'' \<mapsto> utf16 ''great'']))"

definition offline :: network where
  "offline = (\<lambda>request. Rejected (TypeError (utf16 ''Failed to fetch'')))"

definition blank_state :: chat_state where
  "blank_state = example_state\<lparr>inputText := [0x0020, 0x0009, 0x000A, 0x00A0]\<rparr>"

definition example_answer :: "ChatMessage list" where
  "example_answer = [\<lparr>role = User, content = utf16 ''so tired''\<rparr>, \<lparr>role = Assistant, content = utf16 ''ahoy''\<rparr>]"


section \<open>Case-insensitive matching of the keyword patterns\<close>

lemma ascii_upper_less: "p < 128 \<Longrightarrow> ascii_upper p < 128"
  unfolding ascii_upper_def
  by (simp add: word_less_nat_alt word_le_nat_alt unat_sub) arith

lemma upper_eq_iff_lower:
  "c < 128 \<Longrightarrow> p < 128 \<Longrightarrow> ascii_lower p = p \<Longrightarrow>
     (ascii_upper p = ascii_upper c) = (ascii_lower c = p)"
  unfolding ascii_upper_def ascii_lower_def
  apply (simp add: word_less_nat_alt word_le_nat_alt split: if_splits)
  apply (intro conjI impI)
  apply (simp_all add: word_eq_iff_unsigned[where ?'a=nat] unat_sub unat_word_ariths word_le_nat_alt)
  apply arith+
  done

lemma lower_not_ascii: "\<not> c < 128 \<Longrightarrow> p < 128 \<Longrightarrow> ascii_lower c \<noteq> p"
  unfolding ascii_lower_def
  by (auto simp add: word_less_nat_alt word_le_nat_alt)

lemma Canonicalize_not_ascii: "\<not> c < 128 \<Longrightarrow> \<not> Canonicalize env c < 128"
  by (auto simp: Canonicalize_def split: list.splits)

text \<open>
  A code unit matches a plain pattern character exactly when lowering it gives that
  character: no unit outside ASCII is canonically equal to an ASCII one.
\<close>

lemma Canonicalize_eq_iff:
  assumes "p < 128" "ascii_lower p = p"
  shows "Canonicalize env p = Canonicalize env c \<longleftrightarrow> ascii_lower c = p"
proof (cases "c < 128")
  case True
  with assms show ?thesis
    by (simp add: Canonicalize_def upper_eq_iff_lower)
next
  case False
  then have "\<not> Canonicalize env c < 128" by (rule Canonicalize_not_ascii)
  moreover have "Canonicalize env p < 128"
    using assms(1) by (simp add: Canonicalize_def ascii_upper_less)
  moreover have "ascii_lower c \<noteq> p" using False assms(1) by (rule lower_not_ascii)
  ultimately show ?thesis by auto
qed

lemma match_alternative_iff:
  "plain kw \<Longrightarrow> match_alternative env kw t \<longleftrightarrow> (\<exists>rest. map ascii_lower t = kw @ rest)"
proof (induction kw arbitrary: t)
  case Nil
  then show ?case by simp
next
  case (Cons p ps)
  then have p: "p < 128" "ascii_lower p = p" and ps: "plain ps"
    by (simp_all add: plain_def)
  show ?case
  proof (cases t)
    case Nil
    then show ?thesis by simp
  next
    case (Cons c cs)
    then show ?thesis
      using Cons.IH [OF ps, of cs] Canonicalize_eq_iff [OF p, of env c] by auto
  qed
qed

lemma mentions_Nil: "mentions kw [] \<longleftrightarrow> kw = []"
  by (simp add: mentions_def)

lemma mentions_Cons:
  "mentions kw (c # cs) \<longleftrightarrow> (\<exists>rest. map ascii_lower (c # cs) = kw @ rest) \<or> mentions kw cs"
proof
  assume "mentions kw (c # cs)"
  then obtain before after where eq: "map ascii_lower (c # cs) = before @ kw @ after"
    unfolding mentions_def by blast
  show "(\<exists>rest. map ascii_lower (c # cs) = kw @ rest) \<or> mentions kw cs"
  proof (cases before)
    case Nil
    with eq show ?thesis by auto
  next
    case (Cons b bs)
    with eq have "map ascii_lower cs = bs @ kw @ after" by simp
    then show ?thesis unfolding mentions_def by blast
  qed
next
  assume "(\<exists>rest. map ascii_lower (c # cs) = kw @ rest) \<or> mentions kw cs"
  then show "mentions kw (c # cs)"
  proof
    assume "\<exists>rest. map ascii_lower (c # cs) = kw @ rest"
    then obtain rest where "map ascii_lower (c # cs) = [] @ kw @ rest" by auto
    then show ?thesis unfolding mentions_def by blast
  next
    assume "mentions kw cs"
    then obtain before after where "map ascii_lower cs = before @ kw @ after"
      unfolding mentions_def by blast
    then have "map ascii_lower (c # cs) = (ascii_lower c # before) @ kw @ after" by simp
    then show ?thesis unfolding mentions_def by blast
  qed
qed

lemma regex_test_iff:
  "list_all plain alternatives \<Longrightarrow>
     regex_test env alternatives t \<longleftrightarrow> (\<exists>kw. kw \<in> set alternatives \<and> mentions kw t)"
proof (induction t)
  case Nil
  then show ?case
    by (auto simp: list_ex_iff list_all_iff match_alternative_iff mentions_Nil)
next
  case (Cons c cs)
  then show ?case
    by (auto simp: list_ex_iff list_all_iff match_alternative_iff mentions_Cons)
qed

lemma regex_test_keywords:
  "list_all plain (map utf16 ks) \<Longrightarrow> regex_test env (map utf16 ks) t = mentions_any ks t"
  by (auto simp: regex_test_iff mentions_any_def)

lemma plain_patterns:
  "list_all plain tired_pattern" "list_all plain confused_pattern" "list_all plain happy_pattern"
  by (simp_all add: tired_pattern_def confused_pattern_def happy_pattern_def plain_def utf16_def ascii_lower_def)

lemma detectMood_keywords:
  "detectMood env t =
     (if mentions_any [''tired'', ''exhausted'', ''sleepy'', ''bored'', ''overwhelmed''] t then Tired
      else if mentions_any [''confused'', ''don't understand'', ''help'', ''stuck'', ''hard'', ''difficult''] t
        then Confused
      else if mentions_any [''great'', ''awesome'', ''got it'', ''understand'', ''thanks'', ''good''] t then Happy
      else Neutral)"
  using plain_patterns
  unfolding detectMood_def Let_def tired_pattern_def confused_pattern_def happy_pattern_def
  by (simp only: regex_test_keywords)

section \<open>The API client and the send handler, step by step\<close>


lemma sendMessage_catch_Error: "sendMessage_catch (Error m) = Error m"
  by (simp add: sendMessage_catch_def)

lemma sendMessage_issued:
  "msgs \<noteq> [] \<Longrightarrow> role (last msgs) = User \<Longrightarrow>
     snd (sendMessage env fetch api msgs) = [chat_request api (content (last msgs))]"
  by (simp add: sendMessage_def sendMessage_try_def Let_def split: prod.splits sum.splits)

lemma sendMessage_resolves:
  assumes "msgs \<noteq> []" "role (last msgs) = User"
    and "fetch (chat_request api (content (last msgs))) = Resolved r"
    and "successful_reply r reply"
  shows "fst (sendMessage env fetch api msgs) = Inr reply"
  using assms
  by (auto simp: sendMessage_def sendMessage_try_def Let_def successful_reply_def get_prop_def)

lemma last_apiMessages:
  "apiMessages msgs input \<noteq> []" "last (apiMessages msgs input) = \<lparr>role = User, content = input\<rparr>"
  by (simp_all add: apiMessages_def)

lemma all_dropWhile_iff: "(\<forall>x\<in>set (dropWhile P xs). P x) \<longleftrightarrow> (\<forall>x\<in>set xs. P x)"
proof
  assume all: "\<forall>x\<in>set (dropWhile P xs). P x"
  have "dropWhile P xs = []"
  proof (rule ccontr)
    assume ne: "dropWhile P xs \<noteq> []"
    then have "\<not> P (hd (dropWhile P xs))" by (rule hd_dropWhile)
    moreover from ne have "hd (dropWhile P xs) \<in> set (dropWhile P xs)" by simp
    ultimately show False using all by blast
  qed
  then show "\<forall>x\<in>set xs. P x" by (simp add: dropWhile_eq_Nil_conv)
next
  assume "\<forall>x\<in>set xs. P x"
  then show "\<forall>x\<in>set (dropWhile P xs). P x" by (meson set_dropWhileD)
qed

lemma trim_empty_iff: "trim s = [] \<longleftrightarrow> (\<forall>c\<in>set s. is_white_space c)"
  by (simp add: trim_def dropWhile_eq_Nil_conv all_dropWhile_iff)

lemma speakText_frame:
  "messages (speakText env t st) = messages st"
  "inputText (speakText env t st) = inputText st"
  "isTyping (speakText env t st) = isTyping st"
  "apiError (speakText env t st) = apiError st"
  "requests (speakText env t st) = requests st"
  "localStorage (speakText env t st) = localStorage st"
  by (simp_all add: speakText_def Let_def)

lemma handleSendMessage_resolved:
  assumes "trim (inputText st) \<noteq> []"
    and "fst (sendMessage env fetch api (apiMessages (messages st) (inputText st))) = Inr reply"
  shows "handleSendMessage env fetch api clk st =
     Inr (speakText env reply
       (st\<lparr>messages := messages st @ [userMessage clk (inputText st),
                                       captainMessage clk reply (detectMood env (inputText st))],
           inputText := [], isTyping := False, apiError := None,
           requests := requests st @ [chat_request api (inputText st)]\<rparr>))"
proof -
  have "snd (sendMessage env fetch api (apiMessages (messages st) (inputText st)))
          = [chat_request api (inputText st)]"
    using sendMessage_issued [of "apiMessages (messages st) (inputText st)" env fetch api]
    by (simp add: last_apiMessages)
  with assms(2) have "sendMessage env fetch api (apiMessages (messages st) (inputText st))
          = (Inr reply, [chat_request api (inputText st)])"
    by (metis prod.collapse)
  with assms(1) show ?thesis
    by (simp add: handleSendMessage_def Let_def)
      (rule arg_cong [where f = "speakText env reply"], rule chat_state.equality, simp_all)
qed



lemma handleSendMessage_successful_reply:
  assumes "trim (inputText st) \<noteq> []"
    and "fetch (chat_request api (inputText st)) = Resolved response"
    and "successful_reply response reply"
  shows "handleSendMessage env fetch api clk st =
     Inr (speakText env reply
       (st\<lparr>messages := messages st @ [userMessage clk (inputText st),
                                       captainMessage clk reply (detectMood env (inputText st))],
           inputText := [], isTyping := False, apiError := None,
           requests := requests st @ [chat_request api (inputText st)]\<rparr>))"
proof -
  have "fst (sendMessage env fetch api (apiMessages (messages st) (inputText st))) = Inr reply"
    using sendMessage_resolves [of "apiMessages (messages st) (inputText st)" fetch api response reply env]
      assms(2,3)
    by (simp add: last_apiMessages)
  with assms(1) show ?thesis by (rule handleSendMessage_resolved)
qed

lemma good_reply_successful:
  "good_reply request = Resolved \<lparr>resp_status = 200, resp_statusText = utf16 ''x'',
      resp_json = Inr (JObject [utf16 ''response'' \<mapsto> utf16 ''great''])\<rparr>"
  "successful_reply \<lparr>resp_status = 200, resp_statusText = utf16 ''x'',
      resp_json = Inr (JObject [utf16 ''response'' \<mapsto> utf16 ''great''])\<rparr> (utf16 ''great'')"
  by (simp_all add: good_reply_def reply_with_def successful_reply_def ok_def utf16_def)

lemma example_state_not_blank: "trim (inputText example_state) \<noteq> []"
  by (simp add: example_state_def trim_empty_iff utf16_def is_white_space_def)

lemma errorMessage_not_null:
  "resp_json response \<noteq> Inr JNull \<Longrightarrow> \<exists>detail. errorMessage env response = Inr detail"
  by (cases "resp_json response")
     (auto simp: errorMessage_def get_prop_def Let_def split: json.splits)

lemma sendMessage_not_ok:
  assumes "msgs \<noteq> []" "role (last msgs) = User"
    and "fetch (chat_request api (content (last msgs))) = Resolved response"
    and "\<not> ok response" and "errorMessage env response = Inr detail"
  shows "fst (sendMessage env fetch api msgs) =
     Inl (Error (if resp_status response = 404
                 then utf16 ''Backend service not found. Please check if the server is running.''
                 else if resp_status response = 500 then utf16 ''Server error: '' @ detail
                 else utf16 ''Backend request failed: '' @ detail))"
  using assms
  by (simp add: sendMessage_def sendMessage_try_def Let_def sendMessage_catch_Error)

lemma not_ok_404_500: "resp_status response = 404 \<or> resp_status response = 500 \<Longrightarrow> \<not> ok response"
  by (auto simp: ok_def)

lemma sendMessage_unreachable:
  assumes "msgs \<noteq> []" "role (last msgs) = User"
    and "fetch (chat_request api (content (last msgs))) = Rejected (TypeError m)"
    and "js_includes (utf16 ''fetch'') m"
  shows "fst (sendMessage env fetch api msgs) =
     Inl (Error (utf16 ''Cannot connect to backend server. Please ensure the backend service is running.''))"
  using assms
  by (simp add: sendMessage_def sendMessage_try_def Let_def sendMessage_catch_def)

lemma sendMessage_lacks_response:
  assumes "msgs \<noteq> []" "role (last msgs) = User"
    and "fetch (chat_request api (content (last msgs))) = Resolved response"
    and "ok response" and "resp_json response = Inr data" and "data \<noteq> JNull"
    and "lacks_response data"
  shows "fst (sendMessage env fetch api msgs) =
     Inl (Error (utf16 ''Invalid response from backend: missing response text''))"
  using assms
  by (cases data)
     (auto simp: sendMessage_def sendMessage_try_def Let_def sendMessage_catch_Error
        lacks_response_def get_prop_def)

lemma example_question_latest:
  "example_question \<noteq> []" "role (last example_question) = User"
  by (simp_all add: example_question_def)

lemma reply_with_Resolved:
  "reply_with code parsed request
     = Resolved \<lparr>resp_status = code, resp_statusText = utf16 ''x'', resp_json = parsed\<rparr>"
  by (simp add: reply_with_def)

lemma detectMood_examples:
  "detectMood example_env (utf16 ''so tired'') = Tired"
  "detectMood example_env (utf16 ''great'') = Happy"
  by (simp_all add: detectMood_def tired_pattern_def confused_pattern_def happy_pattern_def
        utf16_def Canonicalize_def ascii_upper_def)


section \<open>How sendMessage translates failures\<close>

text \<open>
  \<open>sendMessage\<close> resolves only on a successful reply: whatever else the backend does, the
  promise is rejected.
\<close>

lemma sendMessage_resolves_only_on_success:
  assumes "fst (sendMessage env fetch api msgs) = Inr reply"
  shows "msgs \<noteq> [] \<and> role (last msgs) = User
     \<and> (\<exists>response. fetch (chat_request api (content (last msgs))) = Resolved response
            \<and> successful_reply response reply)"
  using assms
  by (auto simp: sendMessage_def sendMessage_try_def Let_def successful_reply_def get_prop_def
        split: if_splits fetch_result.splits sum.splits option.splits json.splits prod.splits)

text \<open>
  For a reply whose body is not the JSON value \<open>null\<close> the rejection is the typed Error of
  the status, with the detail \<open>errorData.error || `HTTP ${status}: ${statusText}`\<close>; a
  TypeError of \<open>fetch\<close> that mentions \<open>fetch\<close> becomes the connection Error; an ok reply
  without a truthy \<open>response\<close> becomes the invalid-response Error.
\<close>

lemma sendMessage_translates_failures:
  assumes "msgs \<noteq> []" and "role (last msgs) = User"
  shows
    "(\<forall>response.
        fetch (chat_request api (content (last msgs))) = Resolved response
        \<and> resp_json response \<noteq> Inr JNull \<and> resp_status response = 404 \<longrightarrow>
          fst (sendMessage env fetch api msgs)
            = Inl (Error (utf16 ''Backend service not found. Please check if the server is running.'')))
     \<and> (\<forall>response.
        fetch (chat_request api (content (last msgs))) = Resolved response
        \<and> resp_json response \<noteq> Inr JNull \<and> resp_status response = 500 \<longrightarrow>
          (\<exists>detail. errorMessage env response = Inr detail
             \<and> fst (sendMessage env fetch api msgs) = Inl (Error (utf16 ''Server error: '' @ detail))))
     \<and> (\<forall>response.
        fetch (chat_request api (content (last msgs))) = Resolved response
        \<and> resp_json response \<noteq> Inr JNull \<and> \<not> ok response
        \<and> resp_status response \<noteq> 404 \<and> resp_status response \<noteq> 500 \<longrightarrow>
          (\<exists>detail. errorMessage env response = Inr detail
             \<and> fst (sendMessage env fetch api msgs)
                 = Inl (Error (utf16 ''Backend request failed: '' @ detail))))
     \<and> (\<forall>m.
        fetch (chat_request api (content (last msgs))) = Rejected (TypeError m)
        \<and> js_includes (utf16 ''fetch'') m \<longrightarrow>
          fst (sendMessage env fetch api msgs)
            = Inl (Error (utf16
                ''Cannot connect to backend server. Please ensure the backend service is running.'')))
     \<and> (\<forall>response data.
        fetch (chat_request api (content (last msgs))) = Resolved response
        \<and> ok response \<and> resp_json response = Inr data \<and> data \<noteq> JNull \<and> lacks_response data \<longrightarrow>
          fst (sendMessage env fetch api msgs)
            = Inl (Error (utf16 ''Invalid response from backend: missing response text'')))"
proof (intro conjI allI impI)
  fix response
  assume a: "fetch (chat_request api (content (last msgs))) = Resolved response
        \<and> resp_json response \<noteq> Inr JNull \<and> resp_status response = 404"
  then obtain detail where d: "errorMessage env response = Inr detail"
    using errorMessage_not_null by blast
  from a have "\<not> ok response" by (simp add: not_ok_404_500)
  from sendMessage_not_ok [OF assms _ this d] a
  show "fst (sendMessage env fetch api msgs)
            = Inl (Error (utf16 ''Backend service not found. Please check if the server is running.''))"
    by simp
next
  fix response
  assume a: "fetch (chat_request api (content (last msgs))) = Resolved response
        \<and> resp_json response \<noteq> Inr JNull \<and> resp_status response = 500"
  then obtain detail where d: "errorMessage env response = Inr detail"
    using errorMessage_not_null by blast
  from a have "\<not> ok response" by (simp add: not_ok_404_500)
  from sendMessage_not_ok [OF assms _ this d] a
  have "fst (sendMessage env fetch api msgs) = Inl (Error (utf16 ''Server error: '' @ detail))"
    by simp
  with d show "\<exists>detail. errorMessage env response = Inr detail
             \<and> fst (sendMessage env fetch api msgs) = Inl (Error (utf16 ''Server error: '' @ detail))"
    by blast
next
  fix response
  assume a: "fetch (chat_request api (content (last msgs))) = Resolved response
        \<and> resp_json response \<noteq> Inr JNull \<and> \<not> ok response
        \<and> resp_status response \<noteq> 404 \<and> resp_status response \<noteq> 500"
  then obtain detail where d: "errorMessage env response = Inr detail"
    using errorMessage_not_null by blast
  from a have "\<not> ok response" by simp
  from sendMessage_not_ok [OF assms _ this d] a
  have "fst (sendMessage env fetch api msgs) = Inl (Error (utf16 ''Backend request failed: '' @ detail))"
    by simp
  with d show "\<exists>detail. errorMessage env response = Inr detail
             \<and> fst (sendMessage env fetch api msgs)
                 = Inl (Error (utf16 ''Backend request failed: '' @ detail))"
    by blast
next
  fix m
  assume "fetch (chat_request api (content (last msgs))) = Rejected (TypeError m)
        \<and> js_includes (utf16 ''fetch'') m"
  then show "fst (sendMessage env fetch api msgs)
            = Inl (Error (utf16
                ''Cannot connect to backend server. Please ensure the backend service is running.''))"
    using sendMessage_unreachable [OF assms] by blast
next
  fix response data
  assume "fetch (chat_request api (content (last msgs))) = Resolved response
        \<and> ok response \<and> resp_json response = Inr data \<and> data \<noteq> JNull \<and> lacks_response data"
  then show "fst (sendMessage env fetch api msgs)
            = Inl (Error (utf16 ''Invalid response from backend: missing response text''))"
    using sendMessage_lacks_response [OF assms] by blast
qed

lemma sendMessage_translates_failures_examples:
  "fst (sendMessage example_env (reply_with 404 (Inl (SyntaxError (utf16 ''Unexpected token'')))) example_api example_question)
     = Inl (Error (utf16 ''Backend service not found. Please check if the server is running.''))
   \<and> fst (sendMessage example_env (reply_with 500 (Inr (JObject [utf16 ''error'' \<mapsto> utf16 ''boom'']))) example_api example_question)
     = Inl (Error (utf16 ''Server error: boom''))
   \<and> fst (sendMessage example_env (reply_with 503 (Inr JOther)) example_api example_question)
     = Inl (Error (utf16 ''Backend request failed: HTTP 503: x''))
   \<and> fst (sendMessage example_env offline example_api example_question)
     = Inl (Error (utf16 ''Cannot connect to backend server. Please ensure the backend service is running.''))
   \<and> fst (sendMessage example_env (reply_with 200 (Inr (JObject Map.empty))) example_api example_question)
     = Inl (Error (utf16 ''Invalid response from backend: missing response text''))"
proof -
  note inst = sendMessage_translates_failures [OF example_question_latest, where env = example_env and api = example_api]
  have 1: "fst (sendMessage example_env (reply_with 404 (Inl (SyntaxError (utf16 ''Unexpected token'')))) example_api example_question)
     = Inl (Error (utf16 ''Backend service not found. Please check if the server is running.''))"
    by (rule inst [THEN conjunct1, rule_format,
          of _ "\<lparr>resp_status = 404, resp_statusText = utf16 ''x'',
                 resp_json = Inl (SyntaxError (utf16 ''Unexpected token''))\<rparr>"])
       (simp add: reply_with_Resolved)
  from inst [where fetch = "reply_with 500 (Inr (JObject [utf16 ''error'' \<mapsto> utf16 ''boom'']))",
      THEN conjunct2, THEN conjunct1, rule_format,
      of "\<lparr>resp_status = 500, resp_statusText = utf16 ''x'',
            resp_json = Inr (JObject [utf16 ''error'' \<mapsto> utf16 ''boom''])\<rparr>"]
  obtain detail where
    d: "errorMessage example_env \<lparr>resp_status = 500, resp_statusText = utf16 ''x'',
            resp_json = Inr (JObject [utf16 ''error'' \<mapsto> utf16 ''boom''])\<rparr> = Inr detail"
    and r: "fst (sendMessage example_env (reply_with 500 (Inr (JObject [utf16 ''error'' \<mapsto> utf16 ''boom'']))) example_api example_question)
       = Inl (Error (utf16 ''Server error: '' @ detail))"
    by (auto simp: reply_with_Resolved)
  from d have "detail = utf16 ''boom''"
    by (simp add: errorMessage_def get_prop_def or_else_def utf16_def)
  with r have 2: "fst (sendMessage example_env (reply_with 500 (Inr (JObject [utf16 ''error'' \<mapsto> utf16 ''boom'']))) example_api example_question)
     = Inl (Error (utf16 ''Server error: boom''))"
    by (simp add: utf16_def)
  from inst [where fetch = "reply_with 503 (Inr JOther)",
      THEN conjunct2, THEN conjunct2, THEN conjunct1, rule_format,
      of "\<lparr>resp_status = 503, resp_statusText = utf16 ''x'', resp_json = Inr JOther\<rparr>"]
  obtain detail' where
    d': "errorMessage example_env \<lparr>resp_status = 503, resp_statusText = utf16 ''x'', resp_json = Inr JOther\<rparr> = Inr detail'"
    and r': "fst (sendMessage example_env (reply_with 503 (Inr JOther)) example_api example_question)
       = Inl (Error (utf16 ''Backend request failed: '' @ detail'))"
    by (auto simp: reply_with_Resolved ok_def)
  from d' have "detail' = utf16 ''HTTP 503: x''"
    by (simp add: errorMessage_def get_prop_def or_else_def utf16_def)
  with r' have 3: "fst (sendMessage example_env (reply_with 503 (Inr JOther)) example_api example_question)
     = Inl (Error (utf16 ''Backend request failed: HTTP 503: x''))"
    by (simp add: utf16_def)
  have 4: "fst (sendMessage example_env offline example_api example_question)
     = Inl (Error (utf16 ''Cannot connect to backend server. Please ensure the backend service is running.''))"
    by (rule inst [THEN conjunct2, THEN conjunct2, THEN conjunct2, THEN conjunct1, rule_format,
          of _ "utf16 ''Failed to fetch''"])
       (simp add: offline_def utf16_def)
  have 5: "fst (sendMessage example_env (reply_with 200 (Inr (JObject Map.empty))) example_api example_question)
     = Inl (Error (utf16 ''Invalid response from backend: missing response text''))"
    by (rule inst [THEN conjunct2, THEN conjunct2, THEN conjunct2, THEN conjunct2, rule_format,
          of _ "\<lparr>resp_status = 200, resp_statusText = utf16 ''x'',
                 resp_json = Inr (JObject Map.empty)\<rparr>" "JObject Map.empty"])
       (simp add: reply_with_Resolved ok_def lacks_response_def)
  from 1 2 3 4 5 show ?thesis by (intro conjI)
qed

text \<open>
  For a reply whose body is \<open>null\<close> the property read throws before any of this: what is
  rejected is the TypeError of the read, as the \<open>catch\<close> block passes it on, in every
  engine. It is never one of the two typed Errors of the status and of the missing text.
\<close>

lemma sendMessage_null_body_not_ok:
  assumes "msgs \<noteq> []" "role (last msgs) = User"
    and "fetch (chat_request api (content (last msgs))) = Resolved response"
    and "\<not> ok response" and "resp_json response = Inr JNull"
  shows "fst (sendMessage env fetch api msgs)
           = Inl (sendMessage_catch (TypeError (read_null_message env (utf16 ''error''))))"
  using assms
  by (simp add: sendMessage_def sendMessage_try_def Let_def errorMessage_def get_prop_def)

lemma sendMessage_null_body_ok:
  assumes "msgs \<noteq> []" "role (last msgs) = User"
    and "fetch (chat_request api (content (last msgs))) = Resolved response"
    and "ok response" and "resp_json response = Inr JNull"
  shows "fst (sendMessage env fetch api msgs)
           = Inl (sendMessage_catch (TypeError (read_null_message env (utf16 ''response''))))"
  using assms
  by (simp add: sendMessage_def sendMessage_try_def Let_def get_prop_def)

lemma sendMessage_catch_not_translated:
  "sendMessage_catch (TypeError m)
     \<noteq> Error (utf16 ''Backend service not found. Please check if the server is running.'')"
  "sendMessage_catch (TypeError m)
     \<noteq> Error (utf16 ''Invalid response from backend: missing response text'')"
  by (simp_all add: sendMessage_catch_def utf16_def)

section \<open>Persistence of the voice settings\<close>






lemma voiceSettings_startup:
  "startup env storage now = Inr st \<Longrightarrow> initialVoiceSettings env storage = Inr (voiceSettings st)"
  by (auto simp: startup_def initialState_def persistVoiceSettings_def split: sum.splits)


section \<open>The claims\<close>

subsection \<open>The backend URL\<close>

text \<open>
  Claim C3, as amended. The constructor resolves the backend URL as the specification says,
  with one difference: an environment variable \<open>VITE_BACKEND_URL\<close> that is set to the empty
  string counts as not set. So: in a browser on \<open>localhost\<close> or \<open>127.0.0.1\<close> the URL is
  \<open>http://localhost:3001\<close>; in a browser on any other host it is \<open>VITE_BACKEND_URL\<close> when
  that is set to a non-empty string, and the page's protocol followed by
  \<open>//captain-focus-backend.onrender.com\<close> otherwise; outside a browser it is
  \<open>VITE_BACKEND_URL\<close> when that is set to a non-empty string, and
  \<open>http://localhost:3001\<close> otherwise.
\<close>

theorem constructor_backendUrl:
  "backendUrl (constructor window VITE_BACKEND_URL) =
     backendUrl_as_specified window (if VITE_BACKEND_URL = Some [] then None else VITE_BACKEND_URL)"
  by (simp add: constructor_def backendUrl_as_specified_def or_else_def split: option.splits)

text \<open>
  Claim C3 as the specification states it fails where the variable is set to the empty
  string: on the host \<open>captain.example\<close> the claim gives the empty URL, the constructor
  gives \<open>https://captain-focus-backend.onrender.com\<close>.
\<close>

theorem constructor_backendUrl_counterexample:
  "backendUrl (constructor (Some \<lparr>hostname = utf16 ''captain.example'', protocol = utf16 ''https:''\<rparr>) (Some []))
     \<noteq> backendUrl_as_specified (Some \<lparr>hostname = utf16 ''captain.example'', protocol = utf16 ''https:''\<rparr>) (Some [])"
  by (simp add: constructor_def backendUrl_as_specified_def or_else_def utf16_def)

subsection \<open>The health check\<close>

text \<open>
  Claim C6. \<open>checkHealth\<close> never throws: whatever the GET to \<open>${backendUrl}/api/health\<close>
  does, the promise resolves. It resolves with \<open>null\<close> when the request fails, when the
  status is not ok, and when the body does not parse; otherwise with the parsed body. (A
  body that parses to \<open>null\<close> makes the log line throw, and the result is \<open>null\<close> again.)
\<close>

theorem checkHealth_never_throws:
  "checkHealth env fetch api =
     (Inr (case fetch (health_request api) of
             Rejected e \<Rightarrow> JNull
           | Resolved response \<Rightarrow>
               if ok response
               then (case resp_json response of Inl e \<Rightarrow> JNull | Inr health \<Rightarrow> health)
               else JNull),
      [\<lparr>req_method = GET, req_url = backendUrl api @ utf16 ''/api/health'',
        req_headers = [(utf16 ''Content-Type'', utf16 ''application/json'')], req_body = None\<rparr>])"
  by (simp add: checkHealth_def checkHealth_try_def health_request_def get_prop_def
        split: fetch_result.splits sum.splits json.splits)

subsection \<open>The backend\<close>

text \<open>
  Claim C8, on the service as the specification describes it. The service is stateless and
  answers every request with the fixed template: after any sequence of requests its state
  is what it was, and each reply is the template filled from that request alone.
\<close>

theorem backend_is_stateless:
  "serve template service asked = (service, map (render template) asked)"
  by (induction asked) (simp_all add: backend_chat_def)

subsection \<open>The precondition of sendMessage\<close>

text \<open>
  Claim C9. For a non-empty list whose last message is not the user's, \<open>sendMessage\<close>
  rejects with \<open>Latest message must be from user\<close> and issues no request. For the empty
  list the check itself fails: it reads \<open>role\<close> of \<open>undefined\<close>, and \<open>sendMessage\<close>
  rejects with what its \<open>catch\<close> block makes of that TypeError, again without a request.
\<close>

theorem sendMessage_requires_latest_user_message:
  "(msgs \<noteq> [] \<and> role (last msgs) \<noteq> User \<longrightarrow>
      sendMessage env fetch api msgs = (Inl (Error (utf16 ''Latest message must be from user'')), []))
   \<and> sendMessage env fetch api []
       = (Inl (sendMessage_catch (TypeError (read_undefined_message env (utf16 ''role'')))), [])"
  by (simp add: sendMessage_def sendMessage_try_def sendMessage_catch_Error)

theorem sendMessage_requires_latest_user_message_witness:
  "sendMessage example_env good_reply example_api example_answer
     = (Inl (Error (utf16 ''Latest message must be from user'')), [])"
  using sendMessage_requires_latest_user_message [of example_answer example_env good_reply example_api]
  by (simp add: example_answer_def)

subsection \<open>Blank input\<close>

text \<open>
  Claim C10. When the input is empty or consists of white space only,
  \<open>handleSendMessage\<close> returns at once and changes nothing: the message list, the input,
  the typing flag, the API error and the list of requests issued are what they were.
\<close>

theorem handleSendMessage_ignores_blank_input:
  "(\<forall>c\<in>set (inputText st). is_white_space c) \<Longrightarrow>
     handleSendMessage env fetch api clk st = Inr st"
  by (simp add: handleSendMessage_def trim_empty_iff)

theorem handleSendMessage_ignores_blank_input_witness:
  "inputText blank_state = [0x0020, 0x0009, 0x000A, 0x00A0]
   \<and> handleSendMessage example_env good_reply example_api example_clock blank_state = Inr blank_state"
  using handleSendMessage_ignores_blank_input
          [of blank_state example_env good_reply example_api example_clock]
  by (simp add: blank_state_def example_state_def is_white_space_def)

subsection \<open>Sending a message\<close>

text \<open>
  Claim C1. For every non-empty message list whose last element has the role \<open>user\<close>,
  \<open>sendMessage\<close> issues exactly one request, a POST to \<open>${backendUrl}/api/chat\<close> whose
  JSON body is \<open>{message: content}\<close> with the content of that last message and nothing
  of the earlier messages or the system prompt. On a successful reply it resolves with the
  \<open>response\<close> field of the reply, and the controller appends that text to the message
  list as a captain message, after the user's message.
\<close>

theorem sendMessage_posts_latest_user_message:
  assumes "msgs \<noteq> []" and "role (last msgs) = User"
  shows "snd (sendMessage env fetch api msgs)
           = [\<lparr>req_method = POST, req_url = backendUrl api @ utf16 ''/api/chat'',
                req_headers = [(utf16 ''Content-Type'', utf16 ''application/json'')],
                req_body = Some (JObject [utf16 ''message'' \<mapsto> content (last msgs)])\<rparr>]
       \<and> (\<forall>response reply.
             fetch (chat_request api (content (last msgs))) = Resolved response
             \<and> successful_reply response reply \<longrightarrow>
               fst (sendMessage env fetch api msgs) = Inr reply)
       \<and> (\<forall>response reply clk (st::chat_state).
             trim (inputText st) \<noteq> []
             \<and> fetch (chat_request api (inputText st)) = Resolved response
             \<and> successful_reply response reply \<longrightarrow>
               (\<exists>st'. handleSendMessage env fetch api clk st = Inr st'
                  \<and> requests st' = requests st @ [chat_request api (inputText st)]
                  \<and> messages st' = messages st @
                       [userMessage clk (inputText st),
                        \<lparr>msg_id = decimal (now_captain clk + 1), msg_text = reply,
                         msg_sender = FromCaptain, msg_mood = Some (detectMood env (inputText st)),
                         msg_timestamp = date_captain clk\<rparr>]))"
proof (intro conjI allI impI)
  show "snd (sendMessage env fetch api msgs)
           = [\<lparr>req_method = POST, req_url = backendUrl api @ utf16 ''/api/chat'',
                req_headers = [(utf16 ''Content-Type'', utf16 ''application/json'')],
                req_body = Some (JObject [utf16 ''message'' \<mapsto> content (last msgs)])\<rparr>]"
    using sendMessage_issued [OF assms] by (simp add: chat_request_def)
next
  fix response reply
  assume "fetch (chat_request api (content (last msgs))) = Resolved response
            \<and> successful_reply response reply"
  then show "fst (sendMessage env fetch api msgs) = Inr reply"
    using sendMessage_resolves [OF assms] by blast
next
  fix response reply clk and st :: chat_state
  assume a: "trim (inputText st) \<noteq> []
             \<and> fetch (chat_request api (inputText st)) = Resolved response
             \<and> successful_reply response reply"
  let ?before_speaking = "st\<lparr>messages := messages st @ [userMessage clk (inputText st),
                                       captainMessage clk reply (detectMood env (inputText st))],
           inputText := [], isTyping := False, apiError := None,
           requests := requests st @ [chat_request api (inputText st)]\<rparr>"
  show "\<exists>st'. handleSendMessage env fetch api clk st = Inr st'
                  \<and> requests st' = requests st @ [chat_request api (inputText st)]
                  \<and> messages st' = messages st @
                       [userMessage clk (inputText st),
                        \<lparr>msg_id = decimal (now_captain clk + 1), msg_text = reply,
                         msg_sender = FromCaptain, msg_mood = Some (detectMood env (inputText st)),
                         msg_timestamp = date_captain clk\<rparr>]"
  proof (intro exI conjI)
    show "handleSendMessage env fetch api clk st = Inr (speakText env reply ?before_speaking)"
      using a handleSendMessage_successful_reply by blast
    show "requests (speakText env reply ?before_speaking) = requests st @ [chat_request api (inputText st)]"
      by (simp only: speakText_frame) simp
    show "messages (speakText env reply ?before_speaking) = messages st @
                       [userMessage clk (inputText st),
                        \<lparr>msg_id = decimal (now_captain clk + 1), msg_text = reply,
                         msg_sender = FromCaptain, msg_mood = Some (detectMood env (inputText st)),
                         msg_timestamp = date_captain clk\<rparr>]"
      by (simp only: speakText_frame) (simp add: captainMessage_def)
  qed
qed

theorem sendMessage_posts_latest_user_message_witness:
  "snd (sendMessage example_env good_reply example_api example_question)
      = [\<lparr>req_method = POST, req_url = utf16 ''http://localhost:3001/api/chat'',
           req_headers = [(utf16 ''Content-Type'', utf16 ''application/json'')],
           req_body = Some (JObject [utf16 ''message'' \<mapsto> utf16 ''so tired''])\<rparr>]
   \<and> fst (sendMessage example_env good_reply example_api example_question) = Inr (utf16 ''great'')
   \<and> (\<exists>st'. handleSendMessage example_env good_reply example_api example_clock example_state = Inr st'
         \<and> map msg_text (messages st') = [utf16 ''so tired'', utf16 ''great''])"
proof -
  have q: "example_question \<noteq> []" "role (last example_question) = User"
    by (simp_all add: example_question_def)
  have c: "content (last example_question) = utf16 ''so tired''"
    by (simp add: example_question_def)
  have u: "backendUrl example_api @ utf16 ''/api/chat'' = utf16 ''http://localhost:3001/api/chat''"
    by (simp add: example_api_def utf16_def)
  note inst = sendMessage_posts_latest_user_message [OF q, of example_env good_reply example_api]
  have first: "snd (sendMessage example_env good_reply example_api example_question)
      = [\<lparr>req_method = POST, req_url = utf16 ''http://localhost:3001/api/chat'',
           req_headers = [(utf16 ''Content-Type'', utf16 ''application/json'')],
           req_body = Some (JObject [utf16 ''message'' \<mapsto> utf16 ''so tired''])\<rparr>]"
    using inst [THEN conjunct1] by (simp only: c u)
  have second: "fst (sendMessage example_env good_reply example_api example_question) = Inr (utf16 ''great'')"
    by (rule inst [THEN conjunct2, THEN conjunct1, rule_format])
       (rule conjI [OF good_reply_successful])
  from inst [THEN conjunct2, THEN conjunct2, rule_format,
      OF conjI [OF example_state_not_blank conjI [OF good_reply_successful]], of example_clock]
  obtain st' where h: "handleSendMessage example_env good_reply example_api example_clock example_state = Inr st'"
    and m: "messages st' = messages example_state @
                       [userMessage example_clock (inputText example_state),
                        \<lparr>msg_id = decimal (now_captain example_clock + 1), msg_text = utf16 ''great'',
                         msg_sender = FromCaptain, msg_mood = Some (detectMood example_env (inputText example_state)),
                         msg_timestamp = date_captain example_clock\<rparr>]"
    by (elim exE conjE)
  have "map msg_text (messages st') = [utf16 ''so tired'', utf16 ''great'']"
    by (simp only: m) (simp add: example_state_def userMessage_def)
  with h have third: "\<exists>st'. handleSendMessage example_env good_reply example_api example_clock example_state = Inr st'
         \<and> map msg_text (messages st') = [utf16 ''so tired'', utf16 ''great'']"
    by (intro exI conjI)
  from first second third show ?thesis by (intro conjI)
qed

subsection \<open>Voice settings\<close>




subsection \<open>Failures of sendMessage\<close>

text \<open>
  Claim C2, at a reply whose body is the JSON value \<open>null\<close>. The claim says that a 404
  becomes the Error \<open>Backend service not found. Please check if the server is running.\<close>
  and that an ok reply without a truthy \<open>response\<close> becomes the Error
  \<open>Invalid response from backend: missing response text\<close>. The code reads
  \<open>errorData.error\<close> (line 71) and \<open>data.response\<close> (line 84) of \<open>null\<close>; the read throws a
  TypeError, which the \<open>catch\<close> block rethrows as it is. A 404 whose body does not parse
  at all is translated as the claim says, through \<open>.catch(() => ({}))\<close>. In each of the
  three cases \<open>sendMessage\<close> rejects.
\<close>

theorem sendMessage_null_body_not_translated:
  "fst (sendMessage example_env (reply_with 404 (Inr JNull)) example_api example_question)
     = Inl (TypeError (utf16 ''Cannot read properties of null (reading 'error')''))
   \<and> fst (sendMessage example_env (reply_with 404 (Inl (SyntaxError (utf16 ''Unexpected token''))))
           example_api example_question)
     = Inl (Error (utf16 ''Backend service not found. Please check if the server is running.''))
   \<and> fst (sendMessage example_env (reply_with 200 (Inr JNull)) example_api example_question)
     = Inl (TypeError (utf16 ''Cannot read properties of null (reading 'response')''))"
  by (simp add: ok_def sendMessage_def sendMessage_try_def example_question_def errorMessage_def
        reply_with_def get_prop_def example_env_def sendMessage_catch_def utf16_def or_else_def)


subsection \<open>The fallback\<close>



subsection \<open>Mood detection\<close>

text \<open>
  Claim C5. \<open>detectMood\<close> gives every text exactly one of the four labels, by
  case-insensitive keyword matching in a fixed order: \<open>tired\<close> when the text mentions one of
  tired, exhausted, sleepy, bored, overwhelmed; else \<open>confused\<close> when it mentions one of
  confused, don't understand, help, stuck, hard, difficult; else \<open>happy\<close> when it mentions
  one of great, awesome, got it, understand, thanks, good; else \<open>neutral\<close>. On a successful
  send the mood of the captain's reply message is the mood detected in the user's input, not
  in the reply.
\<close>

theorem detectMood_by_keyword_priority:
  "detectMood env t =
     (if mentions_any [''tired'', ''exhausted'', ''sleepy'', ''bored'', ''overwhelmed''] t then Tired
      else if mentions_any [''confused'', ''don't understand'', ''help'', ''stuck'', ''hard'', ''difficult''] t
        then Confused
      else if mentions_any [''great'', ''awesome'', ''got it'', ''understand'', ''thanks'', ''good''] t then Happy
      else Neutral)
   \<and> (\<forall>fetch api clk (st::chat_state) response reply.
         trim (inputText st) \<noteq> []
         \<and> fetch (chat_request api (inputText st)) = Resolved response
         \<and> successful_reply response reply \<longrightarrow>
           (\<exists>st'. handleSendMessage env fetch api clk st = Inr st'
              \<and> msg_sender (last (messages st')) = FromCaptain
              \<and> msg_text (last (messages st')) = reply
              \<and> msg_mood (last (messages st')) = Some (detectMood env (inputText st))))"
proof (intro conjI allI impI)
  show "detectMood env t =
     (if mentions_any [''tired'', ''exhausted'', ''sleepy'', ''bored'', ''overwhelmed''] t then Tired
      else if mentions_any [''confused'', ''don't understand'', ''help'', ''stuck'', ''hard'', ''difficult''] t
        then Confused
      else if mentions_any [''great'', ''awesome'', ''got it'', ''understand'', ''thanks'', ''good''] t then Happy
      else Neutral)"
    by (rule detectMood_keywords)
next
  fix fetch api clk response reply and st :: chat_state
  assume a: "trim (inputText st) \<noteq> []
         \<and> fetch (chat_request api (inputText st)) = Resolved response
         \<and> successful_reply response reply"
  let ?before_speaking = "st\<lparr>messages := messages st @ [userMessage clk (inputText st),
                                       captainMessage clk reply (detectMood env (inputText st))],
           inputText := [], isTyping := False, apiError := None,
           requests := requests st @ [chat_request api (inputText st)]\<rparr>"
  have l: "last (messages (speakText env reply ?before_speaking))
             = captainMessage clk reply (detectMood env (inputText st))"
    by (simp only: speakText_frame) simp
  show "\<exists>st'. handleSendMessage env fetch api clk st = Inr st'
              \<and> msg_sender (last (messages st')) = FromCaptain
              \<and> msg_text (last (messages st')) = reply
              \<and> msg_mood (last (messages st')) = Some (detectMood env (inputText st))"
  proof (intro exI conjI)
    show "handleSendMessage env fetch api clk st = Inr (speakText env reply ?before_speaking)"
      using a handleSendMessage_successful_reply by blast
    show "msg_sender (last (messages (speakText env reply ?before_speaking))) = FromCaptain"
      by (simp only: l) (simp add: captainMessage_def)
    show "msg_text (last (messages (speakText env reply ?before_speaking))) = reply"
      by (simp only: l) (simp add: captainMessage_def)
    show "msg_mood (last (messages (speakText env reply ?before_speaking)))
            = Some (detectMood env (inputText st))"
      by (simp only: l) (simp add: captainMessage_def)
  qed
qed

theorem detectMood_by_keyword_priority_witness:
  "detectMood example_env (utf16 ''great'') = Happy
   \<and> (\<exists>st'. handleSendMessage example_env good_reply example_api example_clock example_state = Inr st'
         \<and> msg_sender (last (messages st')) = FromCaptain
         \<and> msg_text (last (messages st')) = utf16 ''great''
         \<and> msg_mood (last (messages st')) = Some Tired)"
proof -
  have i: "inputText example_state = utf16 ''so tired''"
    by (simp add: example_state_def)
  from detectMood_by_keyword_priority [of example_env "[]", THEN conjunct2, rule_format,
      OF conjI [OF example_state_not_blank conjI [OF good_reply_successful]],
      where clk = example_clock]
  have "\<exists>st'. handleSendMessage example_env good_reply example_api example_clock example_state = Inr st'
         \<and> msg_sender (last (messages st')) = FromCaptain
         \<and> msg_text (last (messages st')) = utf16 ''great''
         \<and> msg_mood (last (messages st')) = Some Tired"
    by (simp only: i detectMood_examples)
  with detectMood_examples(2) show ?thesis by (intro conjI)
qed


end
